theory Spec2Isabelle
  imports Main
begin

section \<open>The story-upload web application (app.py)\<close>

text \<open>
  The application is a single Flask module. Its handlers read a request, touch three
  stores (the CSV event log, the local upload directory, the console the operator reads)
  and talk to two remote services (the media host and the optional sheet webhook). The
  embedding passes these around explicitly: a \<open>world\<close> record holds the stores, an
  \<open>env\<close> record holds what the surroundings decide for one request (the clock, whether
  a file operation fails, what the remote services answer), and every handler maps a
  world and a request to a response and the next world.

  Strings are byte strings. The CSV file is kept as the table of fields that the
  \<open>csv\<close> module writes and reads back (one string list per line, the header first);
  the quoting of the bytes on disk is the library's and is not modelled. An exception is
  a value of \<open>exn\<close>, and each \<open>try/except\<close> of the source is a case distinction
  on it.
\<close>

subsection \<open>Data\<close>

type_synonym csv_row = "string list"
type_synonym csv_table = "csv_row list"
type_synonym dict = "string \<rightharpoonup> string"
type_synonym payload = "(string \<times> string) list"

datatype exn = FileNotFoundError | OSError | CloudinaryError | RequestException

datatype response =
    Jsonify "(string \<times> string) list"
  | Redirect string
  | Plain string nat
  | SendFile string
  | NotFound

text \<open>How \<open>file.save\<close> ends: it writes the whole stream, or it raises, leaving either
  nothing new at the path or some partial content there.\<close>

datatype save_outcome = Saved | SaveFailed "string option"

record file_storage =
  filename :: string
  stream :: string

text \<open>The parts of a Flask request the handlers read. \<open>get_json\<close> is the parsed JSON
  body, an object with string values (\<open>None\<close> when there is none); \<open>origin\<close> is the
  scheme and host that \<open>url_for(..., _external=True)\<close> puts in front of a path.\<close>

record request =
  files :: "string \<rightharpoonup> file_storage"
  form :: dict
  get_json :: "dict option"
  remote_addr :: "string option"
  origin :: string

text \<open>Module-level configuration, read once from the process environment.\<close>

record config =
  GOOGLE_SCRIPT_URL :: string
  ADMIN_PASSWORD :: string

text \<open>What the surroundings decide while one request is handled: the formatted time
  \<open>now\<close>; whether writing and reading the log raise; how \<open>file.save\<close> ends; what
  \<open>cloudinary.uploader.upload_large\<close> does with the bytes it is given (it raises, or
  returns the result dictionary); whether \<open>requests.post\<close> raises. Two library
  functions are taken as given, so that every statement below holds for whatever they
  compute: \<open>secure_filename\<close>, werkzeug's sanitizer, and \<open>lower\<close>, Python's
  \<open>str.lower()\<close> with its Unicode case tables.\<close>

record env =
  now :: string
  secure_filename :: "string \<Rightarrow> string"
  lower :: "string \<Rightarrow> string"
  csv_write_fails :: bool
  csv_read_fails :: bool
  save_result :: save_outcome
  cloudinary_result :: "string \<Rightarrow> exn + dict"
  post_raises :: "payload \<Rightarrow> bool"

text \<open>The state the handlers act on: the table in \<open>logs.csv\<close> (\<open>None\<close> when the
  file does not exist), the files in \<open>static/uploads\<close> by name, the byte contents
  handed to the media host so far, the payloads handed to \<open>requests.post\<close> so far, and the
  lines printed for the operator (the fixed text of each \<open>print\<close>, without the
  exception's own message).\<close>

record world =
  log_file :: "csv_table option"
  uploads :: "string \<rightharpoonup> string"
  cloudinary_calls :: "string list"
  webhook_calls :: "payload list"
  console :: "string list"

subsection \<open>Configuration and start-up (lines 16--44)\<close>

definition ALLOWED_EXTENSIONS :: "string set" where
  "ALLOWED_EXTENSIONS = {''mp4'', ''mov'', ''webm'', ''ogg'', ''mkv''}"

definition LOG_HEADER :: csv_row where
  "LOG_HEADER = [''timestamp'', ''ip'', ''event'', ''password'', ''chat'', ''story_url'']"

definition getenv :: "dict \<Rightarrow> string \<Rightarrow> string \<Rightarrow> string" where
  "getenv environ k dflt = (case environ k of None \<Rightarrow> dflt | Some v \<Rightarrow> v)"

definition load_config :: "dict \<Rightarrow> config" where
  "load_config environ =
     \<lparr>GOOGLE_SCRIPT_URL = getenv environ ''GOOGLE_SCRIPT_URL'' '''',
      ADMIN_PASSWORD = getenv environ ''ADMIN_PASSWORD'' ''mrshaik''\<rparr>"

text \<open>Lines 28--31: the log is created with its header only when it does not exist.\<close>

definition create_log_file :: "world \<Rightarrow> world" where
  "create_log_file w =
     (case log_file w of
        None \<Rightarrow> w\<lparr>log_file := Some [LOG_HEADER]\<rparr>
      | Some t \<Rightarrow> w)"

subsection \<open>Helpers (lines 47--76)\<close>

text \<open>\<open>s.rsplit(sep, 1)\<close>: split once, at the last separator.\<close>

definition rsplit1 :: "char \<Rightarrow> string \<Rightarrow> string list" where
  "rsplit1 sep s =
     (let suffix = rev (takeWhile (\<lambda>c. c \<noteq> sep) (rev s))
      in if sep \<in> set s then [take (length s - Suc (length suffix)) s, suffix] else [s])"

text \<open>Line 49. The dot is an ASCII byte, which no multi-byte UTF-8 character contains, so
  splitting the bytes at it is splitting the characters at it.\<close>

definition allowed_file :: "env \<Rightarrow> string \<Rightarrow> bool" where
  "allowed_file e fname \<longleftrightarrow>
     CHR ''.'' \<in> set fname \<and> lower e (rsplit1 CHR ''.'' fname ! 1) \<in> ALLOWED_EXTENSIONS"

definition print_line :: "string \<Rightarrow> world \<Rightarrow> world" where
  "print_line msg w = w\<lparr>console := console w @ [msg]\<rparr>"

text \<open>Lines 58--60: open the log for append (creating it when missing) and write one
  row. When the write raises, the table is left as it was.\<close>

definition writerow :: "env \<Rightarrow> world \<Rightarrow> csv_row \<Rightarrow> exn + world" where
  "writerow e w row =
     (if csv_write_fails e then Inl OSError
      else Inr (w\<lparr>log_file := Some (case log_file w of None \<Rightarrow> [row] | Some t \<Rightarrow> t @ [row])\<rparr>))"

text \<open>Line 74: the post is attempted (and recorded as such); it raises on a network error
  or a timeout. A response with an error status is returned like any other and raises
  nothing, since the source does not inspect it.\<close>

definition requests_post :: "env \<Rightarrow> world \<Rightarrow> payload \<Rightarrow> exn option \<times> world" where
  "requests_post e w pl =
     (if post_raises e pl then Some RequestException else None,
      w\<lparr>webhook_calls := webhook_calls w @ [pl]\<rparr>)"

text \<open>Lines 51--76. The keyword arguments \<open>password\<close>, \<open>chat\<close> and \<open>story_url\<close>
  default to the empty string in the source; here every caller passes all of them, the
  empty string for those it leaves out. Both \<open>try/except\<close> blocks end inside the
  function, so it returns the next world and never an exception.\<close>

definition log_event ::
  "config \<Rightarrow> env \<Rightarrow> world \<Rightarrow> string \<Rightarrow> string \<Rightarrow> string \<Rightarrow> string \<Rightarrow> string \<Rightarrow> world" where
  "log_event cfg e w ip event password chat story_url =
     (let timestamp = now e;
          w1 = (case writerow e w [timestamp, ip, event, password, chat, story_url] of
                  Inr w' \<Rightarrow> w'
                | Inl ex \<Rightarrow> print_line ''Failed to write to CSV log:'' w)
      in if GOOGLE_SCRIPT_URL cfg \<noteq> '''' then
           (let pl = [(''event'', event), (''password'', password), (''chat'', chat),
                      (''story_url'', story_url), (''ip'', ip)]
            in case requests_post e w1 pl of
                 (None, w2) \<Rightarrow> w2
               | (Some ex, w2) \<Rightarrow> print_line ''Failed to send to Google Sheet:'' w2)
         else w1)"

subsection \<open>Routes (lines 79--210)\<close>

definition url_for_main :: string where
  "url_for_main = ''/main''"

text \<open>\<open>url_for('uploaded_file', filename=f, _external=True)\<close> for the rule
  \<open>/uploads/<path:filename>\<close>.\<close>

definition url_for_uploaded_file :: "request \<Rightarrow> string \<Rightarrow> string" where
  "url_for_uploaded_file req fname = origin req @ ''/uploads/'' @ fname"

text \<open>\<open>request.remote_addr or 'unknown'\<close>.\<close>

definition client_ip :: "request \<Rightarrow> string" where
  "client_ip req =
     (case remote_addr req of
        None \<Rightarrow> ''unknown''
      | Some a \<Rightarrow> if a = '''' then ''unknown'' else a)"

text \<open>\<open>request.get_json() or {}\<close>, then \<open>data.get(key, '')\<close>.\<close>

definition json_field :: "request \<Rightarrow> string \<Rightarrow> string" where
  "json_field req k =
     (let data = (case get_json req of None \<Rightarrow> Map.empty | Some d \<Rightarrow> d)
      in case data k of None \<Rightarrow> '''' | Some v \<Rightarrow> v)"

definition wrong_password_message :: string where
  "wrong_password_message = ''Wrong password '' @ [CHR 0xE2, CHR 0x9D, CHR 0x8C]"

definition save_password :: "config \<Rightarrow> env \<Rightarrow> world \<Rightarrow> request \<Rightarrow> response \<times> world" where
  "save_password cfg e w req =
     (let password = json_field req ''password'';
          ip = client_ip req
      in if password = ADMIN_PASSWORD cfg then
           (Jsonify [(''redirect'', url_for_main)],
            log_event cfg e w ip ''password_attempt'' password '''' '''')
         else
           (Jsonify [(''message'', wrong_password_message)],
            log_event cfg e w ip ''password_attempt_failed'' password '''' ''''))"

text \<open>Lines 129--135: the sanitized name is the file's key in the upload directory; a
  failed save is printed and the handler goes on.\<close>

definition file_save :: "env \<Rightarrow> world \<Rightarrow> file_storage \<Rightarrow> string \<Rightarrow> exn option \<times> world" where
  "file_save e w file local_path =
     (case save_result e of
        Saved \<Rightarrow> (None, w\<lparr>uploads := (uploads w)(local_path \<mapsto> stream file)\<rparr>)
      | SaveFailed None \<Rightarrow> (Some OSError, w)
      | SaveFailed (Some part) \<Rightarrow> (Some OSError, w\<lparr>uploads := (uploads w)(local_path \<mapsto> part)\<rparr>))"

definition save_local_copy :: "env \<Rightarrow> world \<Rightarrow> file_storage \<Rightarrow> string \<Rightarrow> world" where
  "save_local_copy e w file local_path =
     (case file_save e w file local_path of
        (None, w1) \<Rightarrow> w1
      | (Some ex, w1) \<Rightarrow> print_line ''Local save failed:'' w1)"

text \<open>Line 140: \<open>open(local_path, 'rb')\<close> reads what is on disk at the path.\<close>

definition open_rb :: "world \<Rightarrow> string \<Rightarrow> exn + string" where
  "open_rb w local_path =
     (case uploads w local_path of None \<Rightarrow> Inl FileNotFoundError | Some bytes \<Rightarrow> Inr bytes)"

definition upload_large :: "env \<Rightarrow> world \<Rightarrow> string \<Rightarrow> (exn + dict) \<times> world" where
  "upload_large e w fobj =
     (cloudinary_result e fobj, w\<lparr>cloudinary_calls := cloudinary_calls w @ [fobj]\<rparr>)"

text \<open>Lines 138--151: the remote attempt and the fallback to the local URL. The result is
  \<open>video_url\<close> and the world after the attempt.\<close>

definition cloudinary_upload ::
  "env \<Rightarrow> world \<Rightarrow> request \<Rightarrow> string \<Rightarrow> string \<Rightarrow> string \<times> world" where
  "cloudinary_upload e w req fname local_path =
     (case open_rb w local_path of
        Inl ex \<Rightarrow>
          (url_for_uploaded_file req fname, print_line ''Cloudinary upload failed:'' w)
      | Inr fobj \<Rightarrow>
          (case upload_large e w fobj of
             (Inl ex, w1) \<Rightarrow>
               (url_for_uploaded_file req fname, print_line ''Cloudinary upload failed:'' w1)
           | (Inr upload_result, w1) \<Rightarrow>
               (let video_url =
                      (case upload_result ''secure_url'' of None \<Rightarrow> '''' | Some u \<Rightarrow> u)
                in (video_url, print_line ''Cloudinary upload success:'' w1))))"

definition upload_story_video :: "config \<Rightarrow> env \<Rightarrow> world \<Rightarrow> request \<Rightarrow> response \<times> world" where
  "upload_story_video cfg e w req =
     (case files req ''video'' of
        None \<Rightarrow> (Plain ''No file part'' 400, w)
      | Some file \<Rightarrow>
          if filename file = '''' then (Plain ''No selected file'' 400, w)
          else
            (let uploader = (case form req ''uploader'' of None \<Rightarrow> ''user'' | Some u \<Rightarrow> u);
                 ip = client_ip req
             in if \<not> allowed_file e (filename file) then (Plain ''Unsupported file type'' 400, w)
                else
                  (let fname = secure_filename e (filename file);
                       local_path = fname;
                       w1 = save_local_copy e w file local_path;
                       (video_url, w2) = cloudinary_upload e w1 req fname local_path;
                       event_name = (if uploader = ''admin'' then ''admin_story_upload''
                                     else ''user_story_upload'')
                   in (Redirect url_for_main,
                       log_event cfg e w2 ip event_name '''' '''' video_url))))"

text \<open>\<open>csv.DictReader\<close> over the table: the first row names the fields, empty rows are
  skipped, and each other row becomes a dictionary in which a later duplicate of a field
  name wins. A field the row is too short for reads as \<open>None\<close>, like a missing key.\<close>

definition DictReader :: "csv_table \<Rightarrow> dict list" where
  "DictReader t =
     (case t of
        [] \<Rightarrow> []
      | fieldnames # rows \<Rightarrow>
          map (\<lambda>row. map_of (rev (zip fieldnames row))) (filter (\<lambda>row. row \<noteq> []) rows))"

text \<open>Lines 168--169 and 185--186: open the log for reading and parse all of it.\<close>

definition read_rows :: "env \<Rightarrow> world \<Rightarrow> exn + dict list" where
  "read_rows e w =
     (if csv_read_fails e then Inl OSError
      else case log_file w of None \<Rightarrow> Inl FileNotFoundError | Some t \<Rightarrow> Inr (DictReader t))"

text \<open>Lines 170--173 and 187--190: the loop over the reversed rows. \<open>row_matches\<close> is
  its condition (\<open>row.get('event') == kind and row.get('story_url')\<close>, a missing or empty
  URL being falsy); \<open>url\<close> starts empty and the loop breaks at the first match.\<close>

definition row_matches :: "string \<Rightarrow> dict \<Rightarrow> bool" where
  "row_matches kind row \<longleftrightarrow>
     row ''event'' = Some kind \<and>
     (case row ''story_url'' of None \<Rightarrow> False | Some u \<Rightarrow> u \<noteq> '''')"

fun story_loop :: "string \<Rightarrow> dict list \<Rightarrow> string" where
  "story_loop kind [] = ''''"
| "story_loop kind (row # rest) =
     (if row_matches kind row
      then (case row ''story_url'' of None \<Rightarrow> '''' | Some u \<Rightarrow> u)
      else story_loop kind rest)"

definition last_admin_story :: "env \<Rightarrow> world \<Rightarrow> response \<times> world" where
  "last_admin_story e w =
     (case read_rows e w of
        Inr rows \<Rightarrow> (Jsonify [(''url'', story_loop ''admin_story_upload'' (rev rows))], w)
      | Inl ex \<Rightarrow> (Jsonify [(''url'', '''')], print_line ''Failed to read last_admin_story:'' w))"

definition last_user_story :: "env \<Rightarrow> world \<Rightarrow> response \<times> world" where
  "last_user_story e w =
     (case read_rows e w of
        Inr rows \<Rightarrow> (Jsonify [(''url'', story_loop ''user_story_upload'' (rev rows))], w)
      | Inl ex \<Rightarrow> (Jsonify [(''url'', '''')], print_line ''Failed to read last_user_story:'' w))"

definition log_chat :: "config \<Rightarrow> env \<Rightarrow> world \<Rightarrow> request \<Rightarrow> response \<times> world" where
  "log_chat cfg e w req =
     (let chat_text = json_field req ''chat'';
          ip = client_ip req
      in (Jsonify [(''status'', ''ok'')], log_event cfg e w ip ''chat_message'' '''' chat_text ''''))"

text \<open>Lines 207--210: serve the file of that name from the upload directory.\<close>

definition uploaded_file :: "world \<Rightarrow> string \<Rightarrow> response" where
  "uploaded_file w fname =
     (case uploads w fname of None \<Rightarrow> NotFound | Some bytes \<Rightarrow> SendFile bytes)"

subsection \<open>Observations and sample inputs\<close>

text \<open>The lines of the log file, none when the file does not exist.\<close>

definition log_lines :: "world \<Rightarrow> csv_table" where
  "log_lines w = (case log_file w of None \<Rightarrow> [] | Some t \<Rightarrow> t)"

text \<open>A run of \<open>log_event\<close> calls, each with its own surroundings and arguments
  \<open>(e, ip, event, password, chat, story_url)\<close>, oldest first.\<close>

type_synonym log_call = "env \<times> string \<times> string \<times> string \<times> string \<times> string"

definition log_events :: "config \<Rightarrow> world \<Rightarrow> log_call list \<Rightarrow> world" where
  "log_events cfg w calls =
     foldl (\<lambda>w' (e, ip, event, password, chat, story_url).
              log_event cfg e w' ip event password chat story_url) w calls"



text \<open>The dictionary \<open>DictReader\<close> builds for a row under the application's header.\<close>

definition row_dict :: "csv_row \<Rightarrow> dict" where
  "row_dict row = map_of (rev (zip LOG_HEADER row))"

text \<open>Two worlds agree on everything the primary operations own: the log, the upload
  directory and the calls made to the media host.\<close>

definition same_primary :: "world \<Rightarrow> world \<Rightarrow> bool" where
  "same_primary w w' \<longleftrightarrow>
     log_file w = log_file w' \<and> uploads w = uploads w' \<and>
     cloudinary_calls w = cloudinary_calls w'"

text \<open>The \<open>try\<close> block of lines 139--147 raises: the local copy cannot be opened, or the
  media host's upload raises.\<close>

definition remote_attempt_fails :: "env \<Rightarrow> world \<Rightarrow> string \<Rightarrow> bool" where
  "remote_attempt_fails e w local_path =
     (case uploads w local_path of
        None \<Rightarrow> True
      | Some bytes \<Rightarrow> (case cloudinary_result e bytes of Inl ex \<Rightarrow> True | Inr r \<Rightarrow> False))"

text \<open>A lower-casing for the sample inputs, on UTF-8 bytes: the ASCII capitals become
  small letters and the three bytes of U+212A KELVIN SIGN become \<open>k\<close>, as
  \<open>str.lower()\<close> has them; all other bytes stay as they are.\<close>

definition lower_char :: "char \<Rightarrow> char" where
  "lower_char c =
     (let n = (of_char c :: nat) in if 65 \<le> n \<and> n \<le> 90 then char_of (n + 32) else c)"

fun sample_lower :: "string \<Rightarrow> string" where
  "sample_lower (a # b # c # cs) =
     (if a = CHR 0xE2 \<and> b = CHR 0x84 \<and> c = CHR 0xAA then CHR ''k'' # sample_lower cs
      else lower_char a # sample_lower (b # c # cs))"
| "sample_lower (a # cs) = lower_char a # sample_lower cs"
| "sample_lower [] = []"

text \<open>The name \<open>clip.mKv\<close> written with the Kelvin sign.\<close>

definition kelvin_name :: string where
  "kelvin_name = ''clip.m'' @ [CHR 0xE2, CHR 0x84, CHR 0xAA] @ ''v''"

text \<open>Sample inputs: the default configuration, surroundings in which nothing fails and
  variants in which one thing does, a fresh installation, and requests as a browser sends
  them.\<close>

definition cfg0 :: config where
  "cfg0 = load_config Map.empty"

definition cfg_hook :: config where
  "cfg_hook = cfg0\<lparr>GOOGLE_SCRIPT_URL := ''https://script.example/exec''\<rparr>"

definition env0 :: env where
  "env0 = \<lparr>now = ''2024-05-01 12:00:00'', secure_filename = filter (\<lambda>c. c \<noteq> CHR ''/''),
           lower = sample_lower,
           csv_write_fails = False, csv_read_fails = False, save_result = Saved,
           cloudinary_result =
             (\<lambda>bytes. Inr [''secure_url'' \<mapsto> ''https://media.example/stories/v1.mp4'']),
           post_raises = (\<lambda>pl. False)\<rparr>"

definition env_no_secure_url :: env where
  "env_no_secure_url = env0\<lparr>cloudinary_result := (\<lambda>bytes. Inr Map.empty)\<rparr>"

definition env_cloud_down :: env where
  "env_cloud_down = env0\<lparr>cloudinary_result := (\<lambda>bytes. Inl CloudinaryError)\<rparr>"

definition env_disk_full :: env where
  "env_disk_full = env0\<lparr>save_result := SaveFailed None\<rparr>"

definition env_log_locked :: env where
  "env_log_locked = env0\<lparr>csv_write_fails := True\<rparr>"

definition env_log_unreadable :: env where
  "env_log_unreadable = env0\<lparr>csv_read_fails := True\<rparr>"

definition env_hook_down :: env where
  "env_hook_down = env0\<lparr>post_raises := (\<lambda>pl. True)\<rparr>"

definition world0 :: world where
  "world0 = create_log_file \<lparr>log_file = None, uploads = Map.empty, cloudinary_calls = [],
                              webhook_calls = [], console = []\<rparr>"

definition world_stale :: world where
  "world_stale = world0\<lparr>uploads := [''clip.MP4'' \<mapsto> ''OLDBYTES'']\<rparr>"

definition upload_request :: "string \<Rightarrow> string option \<Rightarrow> request" where
  "upload_request fname who =
     \<lparr>files = [''video'' \<mapsto> \<lparr>filename = fname, stream = ''VIDEOBYTES''\<rparr>],
      form = (case who of None \<Rightarrow> Map.empty | Some u \<Rightarrow> [''uploader'' \<mapsto> u]),
      get_json = None, remote_addr = Some ''203.0.113.7'',
      origin = ''http://localhost:5000''\<rparr>"

definition json_request :: "string \<Rightarrow> string \<Rightarrow> request" where
  "json_request k v =
     \<lparr>files = Map.empty, form = Map.empty, get_json = Some [k \<mapsto> v],
      remote_addr = Some ''203.0.113.7'', origin = ''http://localhost:5000''\<rparr>"

definition call :: "string \<Rightarrow> string \<Rightarrow> log_call" where
  "call event story_url = (env0, ''203.0.113.7'', event, '''', '''', story_url)"

section \<open>Properties\<close>

subsection \<open>Unfolding the samples and the handlers\<close>

lemmas sample_defs =
  cfg0_def cfg_hook_def env0_def world0_def world_stale_def upload_request_def json_request_def
  load_config_def getenv_def create_log_file_def env_no_secure_url_def env_cloud_down_def
  env_disk_full_def env_log_locked_def env_log_unreadable_def env_hook_down_def

lemmas handler_defs =
  upload_story_video_def save_local_copy_def file_save_def cloudinary_upload_def open_rb_def
  upload_large_def log_event_def writerow_def requests_post_def print_line_def client_ip_def
  json_field_def url_for_main_def url_for_uploaded_file_def log_lines_def Let_def

subsection \<open>The extension test\<close>

lemma rsplit1_last_dot:
  assumes "sep \<notin> set ext"
  shows "rsplit1 sep (stem @ sep # ext) = [stem, ext]"
proof -
  have "takeWhile (\<lambda>c. c \<noteq> sep) (rev ext @ sep # rev stem) =
      rev ext @ takeWhile (\<lambda>c. c \<noteq> sep) (sep # rev stem)"
    using assms by (intro takeWhile_append2) auto
  then have "takeWhile (\<lambda>c. c \<noteq> sep) (rev ext @ sep # rev stem) = rev ext"
    by simp
  then show ?thesis
    by (simp add: rsplit1_def)
qed

text \<open>A filename is allowed exactly when the text after its last dot, lower-cased, is one
  of the five extensions.\<close>

lemma allowed_file_iff:
  "allowed_file e fname \<longleftrightarrow>
     (\<exists>stem ext. fname = stem @ CHR ''.'' # ext \<and> CHR ''.'' \<notin> set ext \<and>
                 lower e ext \<in> ALLOWED_EXTENSIONS)"
proof
  assume a: "allowed_file e fname"
  then have "CHR ''.'' \<in> set fname"
    by (simp add: allowed_file_def)
  then obtain stem ext where split: "fname = stem @ CHR ''.'' # ext" "CHR ''.'' \<notin> set ext"
    by (auto dest: split_list_last)
  with a have "lower e ext \<in> ALLOWED_EXTENSIONS"
    by (simp add: allowed_file_def rsplit1_last_dot)
  with split show "\<exists>stem ext. fname = stem @ CHR ''.'' # ext \<and> CHR ''.'' \<notin> set ext \<and>
      lower e ext \<in> ALLOWED_EXTENSIONS"
    by blast
next
  assume "\<exists>stem ext. fname = stem @ CHR ''.'' # ext \<and> CHR ''.'' \<notin> set ext \<and>
      lower e ext \<in> ALLOWED_EXTENSIONS"
  then show "allowed_file e fname"
    by (auto simp: allowed_file_def rsplit1_last_dot)
qed

lemma allowed_file_env:
  "lower e' = lower e \<Longrightarrow> allowed_file e' fname = allowed_file e fname"
  by (simp add: allowed_file_def)

lemma kelvin_name_nonempty: "kelvin_name \<noteq> ''''"
  by (simp add: kelvin_name_def)

lemma sample_lower_values:
  "sample_lower ''txt'' = ''txt''"
  "sample_lower ''MP4'' = ''mp4''"
  "sample_lower (''m'' @ [CHR 0xE2, CHR 0x84, CHR 0xAA] @ ''v'') = ''mkv''"
  by code_simp+

lemma not_allowed_notes: "\<not> allowed_file env0 ''notes.txt''"
  by (simp add: allowed_file_def rsplit1_def env0_def sample_lower_values ALLOWED_EXTENSIONS_def
      del: sample_lower.simps)

lemma allowed_clip: "lower e = sample_lower \<Longrightarrow> allowed_file e ''clip.MP4''"
  by (simp add: allowed_file_def rsplit1_def sample_lower_values ALLOWED_EXTENSIONS_def
      del: sample_lower.simps)

lemma allowed_clip_samples:
  "allowed_file env0 ''clip.MP4''"
  "allowed_file env_no_secure_url ''clip.MP4''"
  "allowed_file env_cloud_down ''clip.MP4''"
  "allowed_file env_disk_full ''clip.MP4''"
  by (rule allowed_clip, simp add: env0_def env_no_secure_url_def env_cloud_down_def
      env_disk_full_def)+

lemma allowed_kelvin: "allowed_file env0 kelvin_name"
  using sample_lower_values(3)
  by (simp add: allowed_file_def rsplit1_def env0_def kelvin_name_def ALLOWED_EXTENSIONS_def
      del: sample_lower.simps)

subsection \<open>What each step of a request changes\<close>

lemma log_lines_cong: "log_file w = log_file w' \<Longrightarrow> log_lines w = log_lines w'"
  by (simp add: log_lines_def)

lemma log_lines_log_event:
  "log_lines (log_event cfg e w ip ev pw ch u) =
     (if csv_write_fails e then log_lines w else log_lines w @ [[now e, ip, ev, pw, ch, u]])"
  by (simp add: log_event_def writerow_def requests_post_def print_line_def log_lines_def Let_def
      split: option.splits)

lemma log_file_log_event:
  "log_file (log_event cfg e w ip ev pw ch u) =
     (if csv_write_fails e then log_file w
      else Some (log_lines w @ [[now e, ip, ev, pw, ch, u]]))"
  by (simp add: log_event_def writerow_def requests_post_def print_line_def log_lines_def Let_def
      split: option.splits)

lemma uploads_log_event: "uploads (log_event cfg e w ip ev pw ch u) = uploads w"
  by (simp add: log_event_def writerow_def requests_post_def print_line_def Let_def)

lemma cloudinary_calls_log_event:
  "cloudinary_calls (log_event cfg e w ip ev pw ch u) = cloudinary_calls w"
  by (simp add: log_event_def writerow_def requests_post_def print_line_def Let_def)

lemma log_event_webhook_irrelevant:
  "same_primary
     (log_event (cfg\<lparr>GOOGLE_SCRIPT_URL := hook\<rparr>) (e\<lparr>post_raises := p\<rparr>) w ip ev pw ch u)
     (log_event cfg e w ip ev pw ch u)"
  by (simp add: same_primary_def log_file_log_event uploads_log_event cloudinary_calls_log_event)

lemma save_local_copy_frame:
  "log_file (save_local_copy e w vfile p) = log_file w"
  "cloudinary_calls (save_local_copy e w vfile p) = cloudinary_calls w"
  "uploads (save_local_copy e w vfile p) =
     (case save_result e of
        Saved \<Rightarrow> (uploads w)(p \<mapsto> stream vfile)
      | SaveFailed None \<Rightarrow> uploads w
      | SaveFailed (Some part) \<Rightarrow> (uploads w)(p \<mapsto> part))"
  by (simp_all add: save_local_copy_def file_save_def print_line_def
      split: save_outcome.splits option.splits)

lemma cloudinary_upload_frame:
  "log_file (snd (cloudinary_upload e w req fname p)) = log_file w"
  "uploads (snd (cloudinary_upload e w req fname p)) = uploads w"
  "cloudinary_calls (snd (cloudinary_upload e w req fname p)) =
     cloudinary_calls w @ (case uploads w p of None \<Rightarrow> [] | Some bytes \<Rightarrow> [bytes])"
  by (simp_all add: cloudinary_upload_def open_rb_def upload_large_def print_line_def Let_def
      split: option.splits sum.splits)

lemma cloudinary_upload_url:
  "fst (cloudinary_upload e w req fname p) =
     (case uploads w p of
        None \<Rightarrow> url_for_uploaded_file req fname
      | Some bytes \<Rightarrow>
          (case cloudinary_result e bytes of
             Inl ex \<Rightarrow> url_for_uploaded_file req fname
           | Inr r \<Rightarrow> (case r ''secure_url'' of None \<Rightarrow> '''' | Some u \<Rightarrow> u)))"
  by (simp add: cloudinary_upload_def open_rb_def upload_large_def print_line_def Let_def
      split: option.splits sum.splits)

lemma save_local_copy_env:
  "save_result e' = save_result e \<Longrightarrow> save_local_copy e' w vfile p = save_local_copy e w vfile p"
  by (simp add: save_local_copy_def file_save_def)

lemma cloudinary_upload_env:
  "cloudinary_result e' = cloudinary_result e \<Longrightarrow>
   cloudinary_upload e' w req fname p = cloudinary_upload e w req fname p"
  by (simp add: cloudinary_upload_def upload_large_def split: sum.splits)

text \<open>Past its three checks the handler saves, tries the media host, and logs once.\<close>

lemma upload_story_video_validated:
  assumes "files req ''video'' = Some vfile" "filename vfile \<noteq> ''''"
    "allowed_file e (filename vfile)"
  shows "upload_story_video cfg e w req =
     (Redirect ''/main'',
      log_event cfg e
        (snd (cloudinary_upload e
                (save_local_copy e w vfile (secure_filename e (filename vfile)))
                req (secure_filename e (filename vfile)) (secure_filename e (filename vfile))))
        (client_ip req)
        (if form req ''uploader'' = Some ''admin'' then ''admin_story_upload''
         else ''user_story_upload'')
        '''' ''''
        (fst (cloudinary_upload e
                (save_local_copy e w vfile (secure_filename e (filename vfile)))
                req (secure_filename e (filename vfile)) (secure_filename e (filename vfile)))))"
  using assms
  by (simp add: upload_story_video_def Let_def url_for_main_def split_beta split: option.splits)

subsection \<open>Runs of appends, and reading them back\<close>





lemma DictReader_header:
  "DictReader (LOG_HEADER # rows) = map row_dict (filter (\<lambda>row. row \<noteq> []) rows)"
  by (simp add: DictReader_def row_dict_def)

lemma row_dict_six:
  "row_dict [ts, ip, ev, pw, ch, u] ''event'' = Some ev"
  "row_dict [ts, ip, ev, pw, ch, u] ''story_url'' = Some u"
  by (simp_all add: row_dict_def LOG_HEADER_def)

lemma row_matches_six:
  "row_matches kind (row_dict [ts, ip, ev, pw, ch, u]) \<longleftrightarrow> ev = kind \<and> u \<noteq> ''''"
  by (simp add: row_matches_def row_dict_six)

lemma story_loop_no_match:
  "\<forall>row \<in> set rows. \<not> row_matches kind row \<Longrightarrow> story_loop kind rows = ''''"
  by (induction rows) auto


subsection \<open>Appending to the log\<close>



text \<open>
  Claim C8. Whatever the webhook does (it is skipped because no URL is configured, the
  post returns, or the post raises), \<open>log_event\<close> and every handler that calls it leave
  the same log, the same upload directory and the same media-host calls, and the handlers
  give the same response. A post that raises is caught inside \<open>log_event\<close>: the call
  returns, and the last line on the console reports the failure.
\<close>

theorem webhook_never_affects_primary:
  "same_primary
     (log_event (cfg\<lparr>GOOGLE_SCRIPT_URL := hook\<rparr>) (e\<lparr>post_raises := p\<rparr>) w ip ev pw ch u)
     (log_event cfg e w ip ev pw ch u) \<and>
   fst (save_password (cfg\<lparr>GOOGLE_SCRIPT_URL := hook\<rparr>) (e\<lparr>post_raises := p\<rparr>) w req) =
     fst (save_password cfg e w req) \<and>
   same_primary
     (snd (save_password (cfg\<lparr>GOOGLE_SCRIPT_URL := hook\<rparr>) (e\<lparr>post_raises := p\<rparr>) w req))
     (snd (save_password cfg e w req)) \<and>
   fst (log_chat (cfg\<lparr>GOOGLE_SCRIPT_URL := hook\<rparr>) (e\<lparr>post_raises := p\<rparr>) w req) =
     fst (log_chat cfg e w req) \<and>
   same_primary
     (snd (log_chat (cfg\<lparr>GOOGLE_SCRIPT_URL := hook\<rparr>) (e\<lparr>post_raises := p\<rparr>) w req))
     (snd (log_chat cfg e w req)) \<and>
   fst (upload_story_video (cfg\<lparr>GOOGLE_SCRIPT_URL := hook\<rparr>) (e\<lparr>post_raises := p\<rparr>) w req) =
     fst (upload_story_video cfg e w req) \<and>
   same_primary
     (snd (upload_story_video (cfg\<lparr>GOOGLE_SCRIPT_URL := hook\<rparr>) (e\<lparr>post_raises := p\<rparr>) w req))
     (snd (upload_story_video cfg e w req)) \<and>
   (GOOGLE_SCRIPT_URL cfg \<noteq> '''' \<and>
    post_raises e [(''event'', ev), (''password'', pw), (''chat'', ch), (''story_url'', u),
                   (''ip'', ip)] \<longrightarrow>
      last (console (log_event cfg e w ip ev pw ch u)) = ''Failed to send to Google Sheet:'')"
proof -
  let ?c = "cfg\<lparr>GOOGLE_SCRIPT_URL := hook\<rparr>" and ?e = "e\<lparr>post_raises := p\<rparr>"
  have sl: "save_local_copy ?e w fl n = save_local_copy e w fl n" for fl n
    by (rule save_local_copy_env) simp
  have cu: "cloudinary_upload ?e w' req n n' = cloudinary_upload e w' req n n'" for w' n n'
    by (rule cloudinary_upload_env) simp
  have le: "same_primary (log_event ?c ?e w' ip' ev' pw' ch' u')
                         (log_event cfg e w' ip' ev' pw' ch' u')"
    for w' ip' ev' pw' ch' u'
    by (rule log_event_webhook_irrelevant)
  have 1: "fst (save_password ?c ?e w req) = fst (save_password cfg e w req)"
    by (simp add: save_password_def Let_def)
  have 2: "same_primary (snd (save_password ?c ?e w req)) (snd (save_password cfg e w req))"
    using le by (simp add: save_password_def Let_def)
  have 3: "fst (log_chat ?c ?e w req) = fst (log_chat cfg e w req)"
    by (simp add: log_chat_def Let_def)
  have 4: "same_primary (snd (log_chat ?c ?e w req)) (snd (log_chat cfg e w req))"
    using le by (simp add: log_chat_def Let_def)
  have af: "allowed_file ?e n = allowed_file e n" for n
    by (rule allowed_file_env) simp
  have 5: "fst (upload_story_video ?c ?e w req) = fst (upload_story_video cfg e w req)"
    by (simp add: upload_story_video_def Let_def split_beta af split: option.splits)
  have 6: "same_primary (snd (upload_story_video ?c ?e w req))
                        (snd (upload_story_video cfg e w req))"
    using le
    by (simp add: upload_story_video_def Let_def split_beta sl cu af same_primary_def
        split: option.splits)
  have 7: "GOOGLE_SCRIPT_URL cfg \<noteq> '''' \<and>
      post_raises e [(''event'', ev), (''password'', pw), (''chat'', ch), (''story_url'', u),
                     (''ip'', ip)] \<longrightarrow>
      last (console (log_event cfg e w ip ev pw ch u)) = ''Failed to send to Google Sheet:''"
    by (simp add: log_event_def requests_post_def print_line_def Let_def)
  from le 1 2 3 4 5 6 7 show ?thesis by blast
qed

theorem webhook_never_affects_primary_witness:
  "fst (log_chat cfg_hook env_hook_down world0 (json_request ''chat'' ''hello'')) =
     Jsonify [(''status'', ''ok'')] \<and>
   log_lines (snd (log_chat cfg_hook env_hook_down world0 (json_request ''chat'' ''hello''))) =
     [LOG_HEADER,
      [''2024-05-01 12:00:00'', ''203.0.113.7'', ''chat_message'', '''', ''hello'', '''']] \<and>
   console (snd (log_chat cfg_hook env_hook_down world0 (json_request ''chat'' ''hello''))) =
     [''Failed to send to Google Sheet:''] \<and>
   same_primary (snd (log_chat cfg_hook env_hook_down world0 (json_request ''chat'' ''hello'')))
                (snd (log_chat cfg0 env0 world0 (json_request ''chat'' ''hello'')))"
  using webhook_never_affects_primary
          [where cfg = cfg0 and hook = "''https://script.example/exec''" and e = env0
             and p = "\<lambda>pl. True" and w = world0 and req = "json_request ''chat'' ''hello''"]
  by (simp add: sample_defs handler_defs log_chat_def)

subsection \<open>The latest-story queries\<close>



text \<open>
  Claim C6. When the log cannot be read (the read raises, or the file does not exist), when
  it is empty or holds only the header, and when none of the records the reader yields has
  the queried kind together with a non-empty story URL, both queries answer with the empty
  URL. In every world the answer is a JSON object with the one key \<open>url\<close>, never an
  error response.
\<close>

theorem no_story_gives_empty_url:
  "(csv_read_fails e \<or> log_file w = None \<longrightarrow>
      fst (last_admin_story e w) = Jsonify [(''url'', '''')] \<and>
      fst (last_user_story e w) = Jsonify [(''url'', '''')]) \<and>
   (\<forall>t. log_file w = Some t \<and>
        (\<forall>row \<in> set (DictReader t). \<not> row_matches ''admin_story_upload'' row) \<longrightarrow>
      fst (last_admin_story e w) = Jsonify [(''url'', '''')]) \<and>
   (\<forall>t. log_file w = Some t \<and>
        (\<forall>row \<in> set (DictReader t). \<not> row_matches ''user_story_upload'' row) \<longrightarrow>
      fst (last_user_story e w) = Jsonify [(''url'', '''')]) \<and>
   (log_file w = Some [] \<or> log_file w = Some [LOG_HEADER] \<longrightarrow>
      fst (last_admin_story e w) = Jsonify [(''url'', '''')] \<and>
      fst (last_user_story e w) = Jsonify [(''url'', '''')]) \<and>
   (\<exists>u. fst (last_admin_story e w) = Jsonify [(''url'', u)]) \<and>
   (\<exists>u. fst (last_user_story e w) = Jsonify [(''url'', u)])"
proof -
  have unreadable: "csv_read_fails e \<or> log_file w = None \<longrightarrow>
      fst (last_admin_story e w) = Jsonify [(''url'', '''')] \<and>
      fst (last_user_story e w) = Jsonify [(''url'', '''')]"
    by (auto simp: last_admin_story_def last_user_story_def read_rows_def)
  have absent: "fst (last_admin_story e w) = Jsonify [(''url'', '''')]"
    if "log_file w = Some t"
      "\<forall>row \<in> set (DictReader t). \<not> row_matches ''admin_story_upload'' row"
    for t
    using that story_loop_no_match [of "rev (DictReader t)" "''admin_story_upload''"]
    by (auto simp: last_admin_story_def read_rows_def)
  have absent': "fst (last_user_story e w) = Jsonify [(''url'', '''')]"
    if "log_file w = Some t"
      "\<forall>row \<in> set (DictReader t). \<not> row_matches ''user_story_upload'' row"
    for t
    using that story_loop_no_match [of "rev (DictReader t)" "''user_story_upload''"]
    by (auto simp: last_user_story_def read_rows_def)
  have empty: "log_file w = Some [] \<or> log_file w = Some [LOG_HEADER] \<longrightarrow>
      fst (last_admin_story e w) = Jsonify [(''url'', '''')] \<and>
      fst (last_user_story e w) = Jsonify [(''url'', '''')]"
    by (auto simp: last_admin_story_def last_user_story_def read_rows_def DictReader_def)
  have total: "\<exists>u. fst (last_admin_story e w) = Jsonify [(''url'', u)]"
    by (simp add: last_admin_story_def split: sum.splits)
  have total': "\<exists>u. fst (last_user_story e w) = Jsonify [(''url'', u)]"
    by (simp add: last_user_story_def split: sum.splits)
  from unreadable absent absent' empty total total' show ?thesis
    by blast
qed

theorem no_story_gives_empty_url_witness:
  "last_admin_story env_log_unreadable world0 =
     (Jsonify [(''url'', '''')], print_line ''Failed to read last_admin_story:'' world0) \<and>
   fst (last_user_story env0 world0) = Jsonify [(''url'', '''')] \<and>
   fst (last_admin_story env0
          (log_events cfg0 world0
             [call ''user_story_upload'' ''B'', call ''chat_message'' '''',
              call ''admin_story_upload'' ''''])) =
     Jsonify [(''url'', '''')]"
proof -
  let ?w = "log_events cfg0 world0
              [call ''user_story_upload'' ''B'', call ''chat_message'' '''',
               call ''admin_story_upload'' '''']"
  let ?t = "LOG_HEADER #
      [[''2024-05-01 12:00:00'', ''203.0.113.7'', ''user_story_upload'', '''', '''', ''B''],
       [''2024-05-01 12:00:00'', ''203.0.113.7'', ''chat_message'', '''', '''', ''''],
       [''2024-05-01 12:00:00'', ''203.0.113.7'', ''admin_story_upload'', '''', '''', '''']]"
  have tbl: "log_file ?w = Some ?t"
    by (simp add: log_events_def call_def log_file_log_event log_lines_def sample_defs)
  have none: "\<forall>row \<in> set (DictReader ?t). \<not> row_matches ''admin_story_upload'' row"
    by (simp add: DictReader_header row_matches_six)
  have a: "fst (last_admin_story env0 ?w) = Jsonify [(''url'', '''')]"
    using no_story_gives_empty_url [of env0 ?w] tbl none by blast
  have b: "last_admin_story env_log_unreadable world0 =
     (Jsonify [(''url'', '''')], print_line ''Failed to read last_admin_story:'' world0)"
    by (simp add: last_admin_story_def read_rows_def env_log_unreadable_def env0_def)
  have c: "fst (last_user_story env0 world0) = Jsonify [(''url'', '''')]"
    using no_story_gives_empty_url [of env0 world0]
    by (simp add: world0_def create_log_file_def)
  from a b c show ?thesis by simp
qed

subsection \<open>The password gate\<close>




subsection \<open>Rejected uploads\<close>

text \<open>
  Claim C3. An upload request with no \<open>video\<close> file field, with an empty filename, or
  with a filename that \<open>allowed_file\<close> refuses is answered with status 400, and the
  world after the request is the world before it: nothing is appended to the log, nothing
  is written to the upload directory, the media host is not called, and nothing is printed
  or posted. By \<open>allowed_file_iff\<close> a filename is refused exactly when it has no dot or
  the text after its last dot, lower-cased by \<open>str.lower()\<close>, is none of the five
  extensions; the statement holds for whatever \<open>str.lower()\<close> computes.
\<close>

theorem upload_rejected_untouched:
  assumes "files req ''video'' = None \<or>
           (\<exists>file. files req ''video'' = Some file \<and>
                   (filename file = '''' \<or> \<not> allowed_file e (filename file)))"
  shows "\<exists>msg. upload_story_video cfg e w req = (Plain msg 400, w)"
  using assms by (auto simp: upload_story_video_def Let_def)

theorem upload_rejected_untouched_witness:
  "\<not> allowed_file env0 ''notes.txt'' \<and>
   upload_story_video cfg0 env0 world0 (upload_request ''notes.txt'' (Some ''admin''))
     = (Plain ''Unsupported file type'' 400, world0) \<and>
   upload_story_video cfg0 env0 world0 (upload_request [] None)
     = (Plain ''No selected file'' 400, world0) \<and>
   upload_story_video cfg0 env0 world0 (json_request ''chat'' ''hello'')
     = (Plain ''No file part'' 400, world0) \<and>
   allowed_file env0 kelvin_name \<and>
   fst (upload_story_video cfg0 env0 world0 (upload_request kelvin_name None)) =
     Redirect ''/main''"
  using upload_rejected_untouched
          [of "upload_request ''notes.txt'' (Some ''admin'')" env0 cfg0 world0]
    not_allowed_notes allowed_kelvin kelvin_name_nonempty
  by (simp add: upload_story_video_def upload_request_def json_request_def Let_def split_beta
      url_for_main_def)

subsection \<open>Accepted uploads\<close>

text \<open>
  Claim C9. For an upload that passes the three checks, with the log write succeeding, the
  one row the handler appends has the event kind \<open>admin_story_upload\<close> exactly when the
  form field \<open>uploader\<close> is the string \<open>admin\<close>; with any other value, or without the
  field, the kind is \<open>user_story_upload\<close>.
\<close>

theorem upload_event_kind:
  assumes "files req ''video'' = Some vfile" "filename vfile \<noteq> ''''"
    "allowed_file e (filename vfile)"
    and "\<not> csv_write_fails e"
  shows "\<exists>url. log_lines (snd (upload_story_video cfg e w req)) =
           log_lines w @
           [[now e, client_ip req,
             (if form req ''uploader'' = Some ''admin'' then ''admin_story_upload''
              else ''user_story_upload''),
             '''', '''', url]]"
proof -
  let ?n = "secure_filename e (filename vfile)"
  let ?w2 = "snd (cloudinary_upload e (save_local_copy e w vfile ?n) req ?n ?n)"
  have "log_file ?w2 = log_file w"
    by (simp add: cloudinary_upload_frame save_local_copy_frame)
  then have "log_lines ?w2 = log_lines w"
    by (rule log_lines_cong)
  then show ?thesis
    using assms by (simp add: upload_story_video_validated [OF assms(1-3)] log_lines_log_event)
qed

theorem upload_event_kind_witness:
  "log_lines (snd (upload_story_video cfg0 env0 world0
                     (upload_request ''clip.MP4'' (Some ''admin'')))) =
     [LOG_HEADER,
      [''2024-05-01 12:00:00'', ''203.0.113.7'', ''admin_story_upload'', '''', '''',
       ''https://media.example/stories/v1.mp4'']] \<and>
   log_lines (snd (upload_story_video cfg0 env0 world0
                     (upload_request ''clip.MP4'' (Some ''Admin'')))) =
     [LOG_HEADER,
      [''2024-05-01 12:00:00'', ''203.0.113.7'', ''user_story_upload'', '''', '''',
       ''https://media.example/stories/v1.mp4'']] \<and>
   log_lines (snd (upload_story_video cfg0 env0 world0
                     (upload_request ''clip.MP4'' (Some ''root'')))) =
     [LOG_HEADER,
      [''2024-05-01 12:00:00'', ''203.0.113.7'', ''user_story_upload'', '''', '''',
       ''https://media.example/stories/v1.mp4'']] \<and>
   log_lines (snd (upload_story_video cfg0 env0 world0
                     (upload_request ''clip.MP4'' (Some ''user'')))) =
     [LOG_HEADER,
      [''2024-05-01 12:00:00'', ''203.0.113.7'', ''user_story_upload'', '''', '''',
       ''https://media.example/stories/v1.mp4'']] \<and>
   log_lines (snd (upload_story_video cfg0 env0 world0 (upload_request ''clip.MP4'' None))) =
     [LOG_HEADER,
      [''2024-05-01 12:00:00'', ''203.0.113.7'', ''user_story_upload'', '''', '''',
       ''https://media.example/stories/v1.mp4'']]"
  using allowed_clip_samples
    upload_event_kind [where e = env0 and cfg = cfg0 and w = world0
      and req = "upload_request ''clip.MP4'' (Some ''Admin'')"
      and vfile = "\<lparr>filename = ''clip.MP4'', stream = ''VIDEOBYTES''\<rparr>"]
  by (simp add: sample_defs handler_defs)

text \<open>
  An upload that passes the three checks, on which the media host returns a result without
  a \<open>secure_url\<close>: the handler takes the default of line 146, and the one row it appends
  has an empty story URL.
\<close>

theorem upload_empty_story_url:
  "files (upload_request ''clip.MP4'' None) ''video'' =
     Some \<lparr>filename = ''clip.MP4'', stream = ''VIDEOBYTES''\<rparr> \<and>
   allowed_file env_no_secure_url ''clip.MP4'' \<and>
   \<not> csv_write_fails env_no_secure_url \<and>
   upload_story_video cfg0 env_no_secure_url world0 (upload_request ''clip.MP4'' None) =
     (Redirect ''/main'',
      \<lparr>log_file = Some [LOG_HEADER,
         [''2024-05-01 12:00:00'', ''203.0.113.7'', ''user_story_upload'', '''', '''', '''']],
       uploads = [''clip.MP4'' \<mapsto> ''VIDEOBYTES''],
       cloudinary_calls = [''VIDEOBYTES''], webhook_calls = [],
       console = [''Cloudinary upload success:'']\<rparr>)"
  using allowed_clip_samples by (simp add: sample_defs handler_defs)

text \<open>
  Claim C2, amended. For an upload that passes the three checks, with the log write
  succeeding, the handler redirects to \<open>/main\<close> and appends exactly one row; its event
  kind follows the uploader field, and its story URL is the non-empty local URL when the
  remote attempt raises, and is the \<open>secure_url\<close> of the media host's result (the empty
  string when the result has none) when the remote upload returns.
\<close>

theorem upload_logs_one_row:
  assumes "files req ''video'' = Some vfile" "filename vfile \<noteq> ''''"
    "allowed_file e (filename vfile)"
    and "\<not> csv_write_fails e"
    and fname_def: "fname = secure_filename e (filename vfile)"
    and w1_def: "w1 = save_local_copy e w vfile fname"
  shows "fst (upload_story_video cfg e w req) = Redirect ''/main'' \<and>
         (\<exists>url. log_lines (snd (upload_story_video cfg e w req)) =
                  log_lines w @
                  [[now e, client_ip req,
                    (if form req ''uploader'' = Some ''admin'' then ''admin_story_upload''
                     else ''user_story_upload''),
                    '''', '''', url]] \<and>
                (remote_attempt_fails e w1 fname \<longrightarrow>
                   url = origin req @ ''/uploads/'' @ fname \<and> url \<noteq> '''') \<and>
                (\<forall>bytes r. uploads w1 fname = Some bytes \<and> cloudinary_result e bytes = Inr r \<longrightarrow>
                   url = (case r ''secure_url'' of None \<Rightarrow> '''' | Some u \<Rightarrow> u)))"
proof -
  let ?cu = "cloudinary_upload e w1 req fname fname"
  have run: "upload_story_video cfg e w req =
      (Redirect ''/main'',
       log_event cfg e (snd ?cu) (client_ip req)
         (if form req ''uploader'' = Some ''admin'' then ''admin_story_upload''
          else ''user_story_upload'') '''' '''' (fst ?cu))"
    unfolding fname_def w1_def by (rule upload_story_video_validated [OF assms(1-3)])
  have "log_file (snd ?cu) = log_file w"
    by (simp add: w1_def cloudinary_upload_frame save_local_copy_frame)
  then have lines: "log_lines (snd ?cu) = log_lines w"
    by (rule log_lines_cong)
  have fails: "remote_attempt_fails e w1 fname \<longrightarrow>
      fst ?cu = origin req @ ''/uploads/'' @ fname \<and> fst ?cu \<noteq> ''''"
    by (auto simp: remote_attempt_fails_def cloudinary_upload_url url_for_uploaded_file_def
        split: option.splits sum.splits)
  have returns:
    "\<forall>bytes r. uploads w1 fname = Some bytes \<and> cloudinary_result e bytes = Inr r \<longrightarrow>
      fst ?cu = (case r ''secure_url'' of None \<Rightarrow> '''' | Some u \<Rightarrow> u)"
    by (simp add: cloudinary_upload_url)
  show ?thesis
    using assms(4) fails returns by (simp add: run lines log_lines_log_event)
qed

theorem upload_logs_one_row_witness:
  "log_lines (snd (upload_story_video cfg0 env0 world0
                     (upload_request ''clip.MP4'' (Some ''admin'')))) =
     [LOG_HEADER,
      [''2024-05-01 12:00:00'', ''203.0.113.7'', ''admin_story_upload'', '''', '''',
       ''https://media.example/stories/v1.mp4'']] \<and>
   log_lines (snd (upload_story_video cfg0 env_cloud_down world0
                     (upload_request ''clip.MP4'' None))) =
     [LOG_HEADER,
      [''2024-05-01 12:00:00'', ''203.0.113.7'', ''user_story_upload'', '''', '''',
       ''http://localhost:5000/uploads/clip.MP4'']] \<and>
   remote_attempt_fails env_cloud_down
     (save_local_copy env_cloud_down world0
        \<lparr>filename = ''clip.MP4'', stream = ''VIDEOBYTES''\<rparr> ''clip.MP4'')
     ''clip.MP4''"
  using allowed_clip_samples
    upload_logs_one_row [where e = env0 and cfg = cfg0 and w = world0
      and req = "upload_request ''clip.MP4'' (Some ''admin'')"
      and vfile = "\<lparr>filename = ''clip.MP4'', stream = ''VIDEOBYTES''\<rparr>",
      OF _ _ _ _ refl refl]
    upload_logs_one_row [where e = env_cloud_down and cfg = cfg0 and w = world0
      and req = "upload_request ''clip.MP4'' None"
      and vfile = "\<lparr>filename = ''clip.MP4'', stream = ''VIDEOBYTES''\<rparr>",
      OF _ _ _ _ refl refl]
  by (simp add: sample_defs handler_defs remote_attempt_fails_def)




text \<open>
  Claim C10. For an upload that passes the three checks, the media host is called with the
  bytes found on disk at the local path after the save attempt, and not at all when
  nothing is there. So when the local save raises and no file exists at the path, no
  remote upload is made, the logged story URL is the local fallback URL, and the route
  that URL names finds no file. When the save raises and an older file is at the path,
  it is the older file's bytes that are sent, not the request's.
\<close>

theorem remote_reads_local_copy:
  assumes "files req ''video'' = Some vfile" "filename vfile \<noteq> ''''"
    "allowed_file e (filename vfile)"
    and fname_def: "fname = secure_filename e (filename vfile)"
    and w'_def: "w' = snd (upload_story_video cfg e w req)"
  shows "cloudinary_calls w' =
           cloudinary_calls w @
           (case uploads (save_local_copy e w vfile fname) fname of
              None \<Rightarrow> [] | Some bytes \<Rightarrow> [bytes]) \<and>
         (save_result e = SaveFailed None \<and> uploads w fname = None \<longrightarrow>
            cloudinary_calls w' = cloudinary_calls w \<and>
            log_lines w' =
              (if csv_write_fails e then log_lines w
               else log_lines w @
                    [[now e, client_ip req,
                      (if form req ''uploader'' = Some ''admin'' then ''admin_story_upload''
                       else ''user_story_upload''),
                      '''', '''', origin req @ ''/uploads/'' @ fname]]) \<and>
            uploads w' fname = None \<and>
            uploaded_file w' fname = NotFound) \<and>
         (\<forall>old. save_result e = SaveFailed None \<and> uploads w fname = Some old \<longrightarrow>
            cloudinary_calls w' = cloudinary_calls w @ [old])"
proof -
  let ?w1 = "save_local_copy e w vfile fname"
  let ?cu = "cloudinary_upload e ?w1 req fname fname"
  have run: "upload_story_video cfg e w req =
      (Redirect ''/main'',
       log_event cfg e (snd ?cu) (client_ip req)
         (if form req ''uploader'' = Some ''admin'' then ''admin_story_upload''
          else ''user_story_upload'') '''' '''' (fst ?cu))"
    unfolding fname_def by (rule upload_story_video_validated [OF assms(1-3)])
  have "log_file (snd ?cu) = log_file w"
    by (simp add: cloudinary_upload_frame save_local_copy_frame)
  then have lines: "log_lines (snd ?cu) = log_lines w"
    by (rule log_lines_cong)
  have calls: "cloudinary_calls w' =
      cloudinary_calls w @ (case uploads ?w1 fname of None \<Rightarrow> [] | Some bytes \<Rightarrow> [bytes])"
    by (simp add: w'_def run cloudinary_calls_log_event cloudinary_upload_frame
        save_local_copy_frame)
  have ups: "uploads w' = uploads ?w1"
    by (simp add: w'_def run uploads_log_event cloudinary_upload_frame)
  have lost: "save_result e = SaveFailed None \<Longrightarrow> uploads ?w1 = uploads w"
    by (simp add: save_local_copy_frame)
  have none: "save_result e = SaveFailed None \<and> uploads w fname = None \<longrightarrow>
      fst ?cu = origin req @ ''/uploads/'' @ fname"
    by (auto simp: cloudinary_upload_url lost url_for_uploaded_file_def)
  have log: "log_lines w' =
      (if csv_write_fails e then log_lines w
       else log_lines w @
            [[now e, client_ip req,
              (if form req ''uploader'' = Some ''admin'' then ''admin_story_upload''
               else ''user_story_upload''),
              '''', '''', fst ?cu]])"
    by (simp add: w'_def run lines log_lines_log_event)
  show ?thesis
    using none
    by (auto simp: calls log ups lost uploaded_file_def)
qed

theorem remote_reads_local_copy_witness:
  "cloudinary_calls (snd (upload_story_video cfg0 env_disk_full world0
                            (upload_request ''clip.MP4'' None))) = [] \<and>
   log_lines (snd (upload_story_video cfg0 env_disk_full world0
                     (upload_request ''clip.MP4'' None))) =
     [LOG_HEADER,
      [''2024-05-01 12:00:00'', ''203.0.113.7'', ''user_story_upload'', '''', '''',
       ''http://localhost:5000/uploads/clip.MP4'']] \<and>
   uploaded_file (snd (upload_story_video cfg0 env_disk_full world0
                         (upload_request ''clip.MP4'' None))) ''clip.MP4'' = NotFound \<and>
   cloudinary_calls (snd (upload_story_video cfg0 env_disk_full world_stale
                            (upload_request ''clip.MP4'' None))) = [''OLDBYTES'']"
  using allowed_clip_samples
    remote_reads_local_copy [where e = env_disk_full and cfg = cfg0 and w = world0
      and req = "upload_request ''clip.MP4'' None"
      and vfile = "\<lparr>filename = ''clip.MP4'', stream = ''VIDEOBYTES''\<rparr>",
      OF _ _ _ refl refl]
    remote_reads_local_copy [where e = env_disk_full and cfg = cfg0 and w = world_stale
      and req = "upload_request ''clip.MP4'' None"
      and vfile = "\<lparr>filename = ''clip.MP4'', stream = ''VIDEOBYTES''\<rparr>",
      OF _ _ _ refl refl]
  by (simp add: sample_defs handler_defs uploaded_file_def)

end
